theory Spec2Isabelle
  imports Complex_Main "HOL-Library.Monad_Syntax"
begin

section \<open>Data model (pubplot/base.py)\<close>

text \<open>
  Exceptions raised by the modelled code. \<open>RecursionError\<close> is what Python raises when
  the call stack is exhausted; the recursive share setup takes the remaining stack depth
  as an argument.
\<close>

datatype error =
    ValueError
  | TypeError
  | IndexError
  | AttributeError
  | RecursionError
  | ZeroDivisionError
  | NotImplementedError string

datatype panelref = EmptyPanel | NoPanel | Panel nat






datatype axkind = PlainAxes | BaseAxes | PanelAxes

record text_artist =
  get_text :: string
  get_visible :: bool
  get_position :: "real \<times> real"
  figure_transform :: bool

record bbox =
  xmin :: real
  xmax :: real
  ymin :: real
  ymax :: real

record axes =
  kind :: axkind
  rows :: "nat \<times> nat"
  cols :: "nat \<times> nat"
  number :: "nat option"
  panelparent :: "nat option"
  panelside :: "string option"
  bottompanel :: panelref
  toppanel :: panelref
  leftpanel :: panelref
  rightpanel :: panelref
  sharex :: "nat option"
  sharey :: "nat option"
  spanx :: "nat option"
  spany :: "nat option"
  spanx_group :: "nat list"
  spany_group :: "nat list"
  title_inside :: bool
  title :: text_artist
  collabel :: text_artist
  rowlabel :: text_artist
  xlabel :: text_artist
  ylabel :: text_artist
  xticklabels_visible :: bool
  yticklabels_visible :: bool
  position :: bbox


record subplots_kw =
  kw_left :: real
  kw_right :: real
  kw_bottom :: real
  kw_top :: real
  kw_lspace :: real
  kw_rspace :: real
  kw_bspace :: real
  kw_lwidth :: real
  kw_rwidth :: real

record gridspec =
  gs_left :: real
  gs_right :: real
  gs_bottom :: real
  gs_top :: real

record figure =
  rcreset :: bool
  smart_pad :: real
  smart_tight :: bool
  smart_tight_init :: bool
  fig_gridspec :: "gridspec option"
  fig_subplots_kw :: "subplots_kw option"
  width :: real
  height :: real
  fig_leftpanel :: panelref
  fig_bottompanel :: panelref
  fig_rightpanel :: panelref
  fig_toppanel :: panelref
  suptitle :: "text_artist option"
  size_inches :: "real \<times> real"
  fig_axes :: "nat list"

text \<open>Calls into matplotlib and the rc module that the modelled code makes.\<close>

datatype call =
    GetTightBbox
  | GridspecUpdate gridspec
  | SetSizeInches "real \<times> real"
  | RcReset
  | SuperDraw
  | NewGridSpec nat nat "real option" "real option" "real list" "real list"

text \<open>
  The program state: the axes objects by identity, the figure, the class-level groupers
  \<open>_shared_x_axes\<close> and \<open>_shared_y_axes\<close> as the list of \<open>join\<close> calls made on
  them, the next fresh object identity, and the external calls made so far.
\<close>

record state =
  heap :: "nat \<Rightarrow> axes"
  fig :: figure
  shared_x_axes :: "(nat \<times> nat) list"
  shared_y_axes :: "(nat \<times> nat) list"
  next_id :: nat
  calls :: "call list"

definition modify :: "nat \<Rightarrow> (axes \<Rightarrow> axes) \<Rightarrow> state \<Rightarrow> state" where
  "modify a f st = st\<lparr>heap := (heap st)(a := f (heap st a))\<rparr>"

fun pymin :: "real list \<Rightarrow> error + real" where
  "pymin [] = Inl ValueError"
| "pymin (x # xs) = Inr (fold (\<lambda>y m. if y < m then y else m) xs x)"

fun pymax :: "real list \<Rightarrow> error + real" where
  "pymax [] = Inl ValueError"
| "pymax (x # xs) = Inr (fold (\<lambda>y m. if y > m then y else m) xs x)"

definition spanx_member :: "nat \<Rightarrow> nat list \<Rightarrow> nat \<Rightarrow> state \<Rightarrow> state" where
  "spanx_member self grp ax st =
     modify ax (\<lambda>r. r\<lparr>spanx := Some self, spanx_group := grp,
        xlabel := (xlabel r)\<lparr>get_visible := (ax = self)\<rparr>\<rparr>) st"

definition spanx_setup :: "nat \<Rightarrow> nat list \<Rightarrow> state \<Rightarrow> error + state" where
  "spanx_setup self grp st =
     (let st1 = modify self (\<lambda>r. r\<lparr>xlabel := (xlabel r)\<lparr>figure_transform := True\<rparr>\<rparr>) st in
      case pymin (map (\<lambda>ax. xmin (position (heap st1 ax))) grp) of
        Inl e \<Rightarrow> Inl e
      | Inr lo \<Rightarrow>
         (case pymax (map (\<lambda>ax. xmax (position (heap st1 ax))) grp) of
            Inl e \<Rightarrow> Inl e
          | Inr hi \<Rightarrow>
             (let st2 = modify self
                    (\<lambda>r. r\<lparr>xlabel := (xlabel r)\<lparr>get_position := ((lo + hi) / 2, 0)\<rparr>\<rparr>) st1
              in Inr (fold (spanx_member self grp) grp st2))))"

definition spany_member :: "nat \<Rightarrow> nat list \<Rightarrow> nat \<Rightarrow> state \<Rightarrow> state" where
  "spany_member self grp ax st =
     modify ax (\<lambda>r. r\<lparr>spany := Some self, spany_group := grp,
        ylabel := (if ax \<noteq> self then (ylabel r)\<lparr>get_visible := True\<rparr> else ylabel r)\<rparr>) st"

definition spany_setup :: "nat \<Rightarrow> nat list \<Rightarrow> state \<Rightarrow> error + state" where
  "spany_setup self grp st =
     (let st1 = modify self (\<lambda>r. r\<lparr>ylabel := (ylabel r)\<lparr>figure_transform := True\<rparr>\<rparr>) st in
      case pymin (map (\<lambda>ax. ymin (position (heap st1 ax))) grp) of
        Inl e \<Rightarrow> Inl e
      | Inr lo \<Rightarrow>
         (case pymax (map (\<lambda>ax. ymax (position (heap st1 ax))) grp) of
            Inl e \<Rightarrow> Inl e
          | Inr hi \<Rightarrow>
             (let st2 = modify self
                    (\<lambda>r. r\<lparr>ylabel := (ylabel r)\<lparr>get_position := (0, (lo + hi) / 2)\<rparr>\<rparr>) st1
              in Inr (fold (spany_member self grp) grp st2))))"

definition andthen :: "error + 'a \<Rightarrow> ('a \<Rightarrow> error + 'b) \<Rightarrow> error + 'b" where
  "andthen r f = (case r of Inl e \<Rightarrow> Inl e | Inr x \<Rightarrow> f x)"

definition sharex_finish :: "nat \<Rightarrow> nat \<Rightarrow> state \<Rightarrow> state" where
  "sharex_finish self b st =
     (modify self (\<lambda>r. r\<lparr>sharex := Some b, xticklabels_visible := False,
          xlabel := (xlabel r)\<lparr>get_visible := False\<rparr>\<rparr>) st)
       \<lparr>shared_x_axes := shared_x_axes st @ [(self, b)]\<rparr>"

fun sharex_setup :: "nat \<Rightarrow> nat \<Rightarrow> nat option \<Rightarrow> state \<Rightarrow> error + state" where
  "sharex_setup 0 self other st = Inl RecursionError"
| "sharex_setup (Suc n) self None st = Inr st"
| "sharex_setup (Suc n) self (Some b) st =
     (if self = b then Inr st
      else
        andthen (case (leftpanel (heap st self), leftpanel (heap st b)) of
                   (Panel p, Panel q) \<Rightarrow> sharex_setup n p (Some q) st
                 | _ \<Rightarrow> Inr st) (\<lambda>st1.
        andthen (case (rightpanel (heap st1 self), rightpanel (heap st1 b)) of
                   (Panel p, Panel q) \<Rightarrow> sharex_setup n p (Some q) st1
                 | _ \<Rightarrow> Inr st1) (\<lambda>st2.
        andthen (case bottompanel (heap st2 self) of
                   Panel p \<Rightarrow> if b \<noteq> p then sharex_setup n p (Some b) st2 else Inr st2
                 | _ \<Rightarrow> Inr st2) (\<lambda>st3.
        andthen (case toppanel (heap st3 self) of
                   Panel p \<Rightarrow> if b \<noteq> p then sharex_setup n p (Some b) st3 else Inr st3
                 | _ \<Rightarrow> Inr st3) (\<lambda>st4.
        Inr (sharex_finish self b st4))))))"

definition sharey_finish :: "nat \<Rightarrow> nat \<Rightarrow> state \<Rightarrow> state" where
  "sharey_finish self b st =
     (modify self (\<lambda>r. r\<lparr>sharey := Some b, yticklabels_visible := False,
          ylabel := (ylabel r)\<lparr>get_visible := False\<rparr>\<rparr>) st)
       \<lparr>shared_y_axes := shared_y_axes st @ [(self, b)]\<rparr>"

fun sharey_setup :: "nat \<Rightarrow> nat \<Rightarrow> nat option \<Rightarrow> state \<Rightarrow> error + state" where
  "sharey_setup 0 self other st = Inl RecursionError"
| "sharey_setup (Suc n) self None st = Inr st"
| "sharey_setup (Suc n) self (Some b) st =
     (if self = b then Inr st
      else
        andthen (case (bottompanel (heap st self), bottompanel (heap st b)) of
                   (Panel p, Panel q) \<Rightarrow> sharey_setup n p (Some q) st
                 | _ \<Rightarrow> Inr st) (\<lambda>st1.
        andthen (case (toppanel (heap st1 self), toppanel (heap st1 b)) of
                   (Panel p, Panel q) \<Rightarrow> sharey_setup n p (Some q) st1
                 | _ \<Rightarrow> Inr st1) (\<lambda>st2.
        andthen (case leftpanel (heap st2 self) of
                   Panel p \<Rightarrow> sharey_setup n p (Some b) st2
                 | _ \<Rightarrow> Inr st2) (\<lambda>st3.
        andthen (case rightpanel (heap st3 self) of
                   Panel p \<Rightarrow> sharey_setup n p (Some b) st3
                 | _ \<Rightarrow> Inr st3) (\<lambda>st4.
        Inr (sharey_finish self b st4))))))"


record axes_args =
  arg_panel :: bool
  arg_number :: "nat option"
  arg_sharex :: "nat option"
  arg_sharey :: "nat option"
  arg_spanx_group :: "nat list option"
  arg_spany_group :: "nat list option"
  arg_panelparent :: "nat option"
  arg_panelside :: "string option"
  arg_num1 :: nat
  arg_num2 :: nat
  arg_ncols :: nat
  arg_position :: bbox

definition new_text :: "real \<times> real \<Rightarrow> text_artist" where
  "new_text pos = \<lparr>get_text = [], get_visible = True, get_position = pos,
                    figure_transform = False\<rparr>"

definition fresh_axes :: "axes_args \<Rightarrow> axes" where
  "fresh_axes args =
     \<lparr>kind = (if arg_panel args then PanelAxes else BaseAxes),
      rows = (arg_num1 args div arg_ncols args, arg_num2 args div arg_ncols args),
      cols = (arg_num1 args mod arg_ncols args, arg_num2 args mod arg_ncols args),
      number = arg_number args,
      panelparent = arg_panelparent args,
      panelside = arg_panelside args,
      bottompanel = EmptyPanel,
      toppanel = EmptyPanel,
      leftpanel = EmptyPanel,
      rightpanel = EmptyPanel,
      sharex = None,
      sharey = None,
      spanx = None,
      spany = None,
      spanx_group = [],
      spany_group = [],
      title_inside = False,
      title = new_text (1/2, 1),
      collabel = new_text (1/2, 1),
      rowlabel = new_text (0, 1/2),
      xlabel = new_text (1/2, 0),
      ylabel = new_text (0, 1/2),
      xticklabels_visible = True,
      yticklabels_visible = True,
      position = arg_position args\<rparr>"

definition valid_panelside :: "string option \<Rightarrow> bool" where
  "valid_panelside s =
     (s = None \<or> s = Some ''left'' \<or> s = Some ''right'' \<or> s = Some ''bottom'' \<or> s = Some ''top'')"

definition BaseAxes_init :: "nat \<Rightarrow> axes_args \<Rightarrow> state \<Rightarrow> error + (nat \<times> state)" where
  "BaseAxes_init depth args st =
     (if arg_panel args \<and> arg_panelside args = None then Inl ValueError
      else if \<not> valid_panelside (arg_panelside args) then Inl ValueError
      else if arg_ncols args = 0 then Inl ZeroDivisionError
      else
        let self = next_id st;
            st1 = st\<lparr>heap := (heap st)(self := fresh_axes args), next_id := Suc self\<rparr>
        in
        andthen (if arg_sharex args \<noteq> None
                 then sharex_setup depth self (arg_sharex args) st1 else Inr st1) (\<lambda>st2.
        andthen (if arg_sharey args \<noteq> None
                 then sharey_setup depth self (arg_sharey args) st2 else Inr st2) (\<lambda>st3.
        andthen (case arg_spanx_group args of
                   None \<Rightarrow> Inr st3
                 | Some g \<Rightarrow> if g \<noteq> [] then spanx_setup self g st3 else Inr st3) (\<lambda>st4.
        andthen (case arg_spany_group args of
                   None \<Rightarrow> Inr st4
                 | Some g \<Rightarrow> if g \<noteq> [] then spany_setup self g st4 else Inr st4) (\<lambda>st5.
        Inr (self, st5))))))"

definition add_subplot :: "nat \<Rightarrow> axes_args \<Rightarrow> state \<Rightarrow> error + (nat \<times> state)" where
  "add_subplot depth args st =
     andthen (BaseAxes_init depth args st) (\<lambda>(ax, st1).
       Inr (ax, st1\<lparr>fig := (fig st1)\<lparr>fig_axes := fig_axes (fig st1) @ [ax]\<rparr>\<rparr>))"

definition Figure_init ::
  "real \<times> real \<Rightarrow> gridspec option \<Rightarrow> subplots_kw option \<Rightarrow> bool \<Rightarrow> bool \<Rightarrow> real \<Rightarrow> figure" where
  "Figure_init figsize gs kw rcreset_arg tight pad =
     \<lparr>rcreset = rcreset_arg,
      smart_pad = pad,
      smart_tight = tight,
      smart_tight_init = True,
      fig_gridspec = gs,
      fig_subplots_kw = kw,
      width = fst figsize,
      height = snd figsize,
      fig_leftpanel = EmptyPanel,
      fig_bottompanel = EmptyPanel,
      fig_rightpanel = EmptyPanel,
      fig_toppanel = EmptyPanel,
      suptitle = None,
      size_inches = figsize,
      fig_axes = []\<rparr>"


subsection \<open>Figure.panel_factory\<close>

definition translate_side :: "string \<Rightarrow> string" where
  "translate_side w =
     (if w = ''bottom'' then ''b'' else if w = ''top'' then ''t''
      else if w = ''right'' then ''r'' else if w = ''left'' then ''l'' else w)"

definition whichpanels_or_r :: "string option \<Rightarrow> string" where
  "whichpanels_or_r w =
     (case w of None \<Rightarrow> ''r''
      | Some s \<Rightarrow> (let t = translate_side s in if t = [] then ''r'' else t))"

definition fill :: "'a option \<Rightarrow> 'a \<Rightarrow> 'a" where
  "fill v d = (case v of None \<Rightarrow> d | Some x \<Rightarrow> x)"

definition lower :: "char \<Rightarrow> char" where
  "lower c = (if 65 \<le> (of_char c :: nat) \<and> (of_char c :: nat) \<le> 90
              then char_of (of_char c + (32 :: nat)) else c)"

definition invalid_whichpanels :: "string \<Rightarrow> bool" where
  "invalid_whichpanels w = list_ex (\<lambda>s. lower s \<notin> set ''lrbt'') w"

definition nrows_of :: "string \<Rightarrow> nat" where
  "nrows_of w = 1 + length (filter (\<lambda>i. i \<in> set ''bt'') w)"

definition ncols_of :: "string \<Rightarrow> nat" where
  "ncols_of w = 1 + length (filter (\<lambda>i. i \<in> set ''lr'') w)"

definition keep_side :: "string \<Rightarrow> char option \<Rightarrow> bool" where
  "keep_side w l = (case l of None \<Rightarrow> True | Some c \<Rightarrow> c \<in> set w)"

definition sides_lr :: "string \<Rightarrow> char option list" where
  "sides_lr w = filter (keep_side w) [Some CHR ''l'', None, Some CHR ''r'']"

definition sides_tb :: "string \<Rightarrow> char option list" where
  "sides_tb w = filter (keep_side w) [Some CHR ''t'', None, Some CHR ''b'']"

definition main_pos :: "string \<Rightarrow> nat \<times> nat" where
  "main_pos w = ((if CHR ''t'' \<in> set w then 1 else 0), (if CHR ''l'' \<in> set w then 1 else 0))"

definition corners :: "string \<Rightarrow> ((char \<times> char) \<times> (nat \<times> nat)) list" where
  "corners w =
     [((CHR ''t'', CHR ''l''), (0, 0)),
      ((CHR ''t'', CHR ''r''), (0, snd (main_pos w) + 1)),
      ((CHR ''b'', CHR ''l''), (fst (main_pos w) + 1, 0)),
      ((CHR ''b'', CHR ''r''), (fst (main_pos w) + 1, snd (main_pos w) + 1))]"

definition empty_pos :: "string \<Rightarrow> (nat \<times> nat) list" where
  "empty_pos w =
     map snd (filter (\<lambda>(corner, pos). fst corner \<in> set w \<and> snd corner \<in> set w) (corners w))"

definition side_name :: "char option \<Rightarrow> string option" where
  "side_name k =
     (if k = Some CHR ''b'' then Some ''bottom'' else if k = Some CHR ''t'' then Some ''top''
      else if k = Some CHR ''l'' then Some ''left'' else if k = Some CHR ''r'' then Some ''right''
      else None)"

definition side_or :: "char option \<Rightarrow> char option \<Rightarrow> char option" where
  "side_or a b = (case a of None \<Rightarrow> b | Some c \<Rightarrow> Some c)"

text \<open>The cells visited by the two nested loops, in the order of the visit.\<close>

definition grid_cells :: "string \<Rightarrow> ((nat \<times> nat) \<times> char option) list" where
  "grid_cells w =
     concat (map (\<lambda>(r, side_tb). map (\<lambda>(c, side_lr). ((r, c), side_or side_tb side_lr))
                                      (enumerate 0 (sides_lr w)))
                 (enumerate 0 (sides_tb w)))"

record panel_args =
  pa_bbox_w :: real
  pa_bbox_h :: real
  pa_cellpos :: "nat \<times> nat \<Rightarrow> bbox"
  pa_whichpanels :: "string option"
  pa_hspace :: "real option"
  pa_wspace :: "real option"
  pa_hwidth :: "real option"
  pa_wwidth :: "real option"
  pa_sharex :: "nat option"
  pa_sharey :: "nat option"
  pa_number :: "nat option"

definition ratios :: "nat \<Rightarrow> nat \<Rightarrow> real \<Rightarrow> real \<Rightarrow> real list" where
  "ratios n main r0 panel = map (\<lambda>i. if i \<noteq> main then panel else r0) [0..<n]"

definition rel_space :: "real \<Rightarrow> real \<Rightarrow> nat \<Rightarrow> real option" where
  "rel_space space extent n = (if extent / real n = 0 then None else Some (space / (extent / real n)))"

definition panel_step ::
  "nat \<Rightarrow> panel_args \<Rightarrow> string \<Rightarrow> nat \<Rightarrow> (nat \<times> nat) \<times> char option \<Rightarrow>
   error + (state \<times> (string \<rightharpoonup> nat)) \<Rightarrow> error + (state \<times> (string \<rightharpoonup> nat))" where
  "panel_step depth pa w axmain cell acc =
     andthen acc (\<lambda>(st, panels).
       if fst cell \<in> set (empty_pos w) \<or> fst cell = main_pos w then Inr (st, panels)
       else
         andthen (add_subplot depth
                    \<lparr>arg_panel = True, arg_number = None, arg_sharex = None, arg_sharey = None,
                     arg_spanx_group = None, arg_spany_group = None,
                     arg_panelparent = Some axmain, arg_panelside = side_name (snd cell),
                     arg_num1 = fst (fst cell) * ncols_of w + snd (fst cell),
                     arg_num2 = fst (fst cell) * ncols_of w + snd (fst cell),
                     arg_ncols = ncols_of w,
                     arg_position = pa_cellpos pa (fst cell)\<rparr> st) (\<lambda>(ax, st1).
           Inr (st1, (case side_name (snd cell) of
                        None \<Rightarrow> panels | Some side \<Rightarrow> panels(side \<mapsto> ax)))))"

definition panel_get :: "(string \<rightharpoonup> nat) \<Rightarrow> string \<Rightarrow> panelref" where
  "panel_get panels side = (case panels side of None \<Rightarrow> NoPanel | Some ax \<Rightarrow> Panel ax)"

definition panel_factory :: "nat \<Rightarrow> panel_args \<Rightarrow> state \<Rightarrow> error + (nat \<times> state)" where
  "panel_factory depth pa st =
     (let w = whichpanels_or_r (pa_whichpanels pa);
          hspace = fill (pa_hspace pa) (13/100);
          wspace = fill (pa_wspace pa) (13/100);
          hwidth = fill (pa_hwidth pa) (3/10);
          wwidth = fill (pa_wwidth pa) (3/10)
      in
      if invalid_whichpanels w then Inl ValueError
      else
        let nrows = nrows_of w;
            ncols = ncols_of w;
            h = pa_bbox_h pa * height (fig st) - hspace * real (nrows - 1);
            hspace_rel = rel_space hspace h nrows;
            wd = pa_bbox_w pa * width (fig st) - wspace * real (ncols - 1);
            wspace_rel = rel_space wspace wd ncols;
            w0 = wd - wwidth * real (ncols - 1)
        in
        if w0 < 0 then Inl ValueError
        else
          let h0 = h - hwidth * real (nrows - 1) in
          if h0 < 0 then Inl ValueError
          else
            let st0 = st\<lparr>calls := calls st @
                        [NewGridSpec nrows ncols wspace_rel hspace_rel
                           (ratios ncols (snd (main_pos w)) w0 wwidth)
                           (ratios nrows (fst (main_pos w)) h0 hwidth)]\<rparr>
            in
            andthen (add_subplot depth
                       \<lparr>arg_panel = False, arg_number = pa_number pa,
                        arg_sharex = None, arg_sharey = None,
                        arg_spanx_group = None, arg_spany_group = None,
                        arg_panelparent = None, arg_panelside = None,
                        arg_num1 = fst (main_pos w) * ncols + snd (main_pos w),
                        arg_num2 = fst (main_pos w) * ncols + snd (main_pos w),
                        arg_ncols = ncols,
                        arg_position = pa_cellpos pa (main_pos w)\<rparr> st0) (\<lambda>(axmain, st1).
            andthen (foldl (\<lambda>acc cell. panel_step depth pa w axmain cell acc)
                           (Inr (st1, Map.empty)) (grid_cells w)) (\<lambda>(st2, panels).
            let st3 = modify axmain (\<lambda>r. r\<lparr>bottompanel := panel_get panels ''bottom'',
                                             toppanel := panel_get panels ''top'',
                                             leftpanel := panel_get panels ''left'',
                                             rightpanel := panel_get panels ''right''\<rparr>) st2
            in
            andthen (sharex_setup depth axmain (pa_sharex pa) st3) (\<lambda>st4.
            andthen (sharey_setup depth axmain (pa_sharey pa) st4) (\<lambda>st5.
            Inr (axmain, st5))))))"


subsection \<open>Row and column labels\<close>

datatype labels = Str string | Seq "string list"

definition is_BaseAxes :: "axes \<Rightarrow> bool" where
  "is_BaseAxes r = (kind r = BaseAxes \<or> kind r = PanelAxes)"

definition is_PanelAxes :: "axes \<Rightarrow> bool" where
  "is_PanelAxes r = (kind r = PanelAxes)"

definition broadcast :: "labels \<Rightarrow> nat \<Rightarrow> string list" where
  "broadcast ls n = (case ls of Str s \<Rightarrow> replicate n s | Seq xs \<Rightarrow> xs)"

text \<open>
  \<open>sorted(zip(keys, axs))\<close> compares the pairs; two pairs with the same key and
  different axes compare the axes objects, which have no order: TypeError.
\<close>

definition unorderable :: "(nat \<Rightarrow> nat) \<Rightarrow> nat list \<Rightarrow> bool" where
  "unorderable key axs = list_ex (\<lambda>a. list_ex (\<lambda>b. a \<noteq> b \<and> key a = key b) axs) axs"

definition sorted_by :: "(nat \<Rightarrow> nat) \<Rightarrow> nat list \<Rightarrow> error + nat list" where
  "sorted_by key axs = (if unorderable key axs then Inl TypeError else Inr (sort_key key axs))"

definition rowlabel_set :: "(nat \<Rightarrow> real) \<Rightarrow> nat \<times> string \<Rightarrow> state \<Rightarrow> state" where
  "rowlabel_set label_x p st =
     (if snd p \<noteq> [] \<and> get_text (rowlabel (heap st (fst p))) = []
      then modify (fst p) (\<lambda>r. r\<lparr>rowlabel := (rowlabel r)\<lparr>get_visible := True,
              get_text := snd p, get_position := (label_x (fst p), 1/2)\<rparr>\<rparr>) st
      else st)"

definition row_axes :: "state \<Rightarrow> nat list" where
  "row_axes st =
     filter (\<lambda>ax. is_BaseAxes (heap st ax) \<and> \<not> is_PanelAxes (heap st ax)
                    \<and> fst (cols (heap st ax)) = 0) (fig_axes (fig st))"

definition rowlabels :: "(nat \<Rightarrow> real) \<Rightarrow> labels \<Rightarrow> state \<Rightarrow> error + state" where
  "rowlabels label_x ls st =
     (let axs = row_axes st;
          labs = broadcast ls (length axs)
      in
      if length labs \<noteq> length axs then Inl ValueError
      else andthen (sorted_by (\<lambda>ax. fst (rows (heap st ax))) axs) (\<lambda>axs1.
             Inr (fold (rowlabel_set label_x) (zip axs1 labs) st)))"

definition collabel_set :: "nat \<times> string \<Rightarrow> state \<Rightarrow> state" where
  "collabel_set p st =
     (if snd p \<noteq> [] \<and> get_text (collabel (heap st (fst p))) = []
      then modify (fst p) (\<lambda>r. r\<lparr>collabel := (collabel r)\<lparr>get_text := snd p\<rparr>\<rparr>) st
      else st)"

definition col_axes :: "state \<Rightarrow> nat list" where
  "col_axes st =
     filter (\<lambda>ax. is_BaseAxes (heap st ax) \<and> \<not> is_PanelAxes (heap st ax)
                    \<and> fst (rows (heap st ax)) = 0) (fig_axes (fig st))"

definition collabels :: "labels \<Rightarrow> state \<Rightarrow> error + state" where
  "collabels ls st =
     (let axs = col_axes st;
          labs = broadcast ls (length axs)
      in
      if length labs \<noteq> length axs then Inl ValueError
      else andthen (sorted_by (\<lambda>ax. fst (cols (heap st ax))) axs) (\<lambda>axs1.
             Inr (fold collabel_set (zip axs1 labs) st)))"

subsection \<open>Figure.draw and the tight layout\<close>






text \<open>The number of measure-and-adjust passes among the external calls.\<close>

definition passes :: "call list \<Rightarrow> nat" where
  "passes cs = length (filter (\<lambda>c. c = GetTightBbox) cs)"


subsection \<open>BaseAxes._panel_setup\<close>

text \<open>
  \<open>[ax.bottompanel for ax in group if ax.bottompanel is not None]\<close>: an EmptyPanel is
  not None and stays in the list; reading its position raises.
\<close>

definition panels_of :: "(axes \<Rightarrow> panelref) \<Rightarrow> nat list \<Rightarrow> state \<Rightarrow> panelref list" where
  "panels_of side grp st = filter (\<lambda>p. p \<noteq> NoPanel) (map (\<lambda>ax. side (heap st ax)) grp)"

definition panel_ids :: "panelref list \<Rightarrow> error + nat list" where
  "panel_ids ps =
     (if EmptyPanel \<in> set ps then Inl (NotImplementedError ''Panel does not exist.'')
      else Inr (concat (map (\<lambda>p. case p of Panel a \<Rightarrow> [a] | _ \<Rightarrow> []) ps)))"

definition self_or :: "panelref \<Rightarrow> nat \<Rightarrow> nat" where
  "self_or p self = (case p of Panel a \<Rightarrow> a | _ \<Rightarrow> self)"

definition panel_setup :: "nat \<Rightarrow> nat \<Rightarrow> state \<Rightarrow> error + state" where
  "panel_setup depth self st =
     andthen (case bottompanel (heap st self) of
                Panel p \<Rightarrow> sharex_setup depth self (Some p) st | _ \<Rightarrow> Inr st) (\<lambda>st1.
     andthen (case leftpanel (heap st1 self) of
                Panel p \<Rightarrow> sharey_setup depth self (Some p) st1 | _ \<Rightarrow> Inr st1) (\<lambda>st2.
     let bottom = self_or (bottompanel (heap st2 self)) self;
         left = self_or (leftpanel (heap st2 self)) self
     in
     andthen (case toppanel (heap st2 self) of
                Panel p \<Rightarrow> sharex_setup depth p (Some bottom) st2 | _ \<Rightarrow> Inr st2) (\<lambda>st3.
     andthen (case rightpanel (heap st3 self) of
                Panel p \<Rightarrow> sharex_setup depth p (Some left) st3 | _ \<Rightarrow> Inr st3) (\<lambda>st4.
     andthen (case bottompanel (heap st4 self) of
                Panel p \<Rightarrow>
                  if spanx_group (heap st4 self) \<noteq> []
                  then andthen (panel_ids (panels_of bottompanel (spanx_group (heap st4 self)) st4))
                         (\<lambda>g. spanx_setup p g st4)
                  else Inr st4
              | _ \<Rightarrow> Inr st4) (\<lambda>st5.
     case leftpanel (heap st5 self) of
       Panel p \<Rightarrow>
         if spany_group (heap st5 self) \<noteq> []
         then andthen (panel_ids (panels_of leftpanel (spany_group (heap st5 self)) st5))
                (\<lambda>g. spany_setup p g st5)
         else Inr st5
     | _ \<Rightarrow> Inr st5)))))"

section \<open>Gridline label normalisation (proplot/axes/geo.py)\<close>




section \<open>Well-formed panel structure\<close>






section \<open>A concrete figure\<close>

text \<open>
  Three axes side by side in a 1 by 3 grid of a 6in by 4in figure, as \<open>add_subplot\<close>
  leaves them; used to run the definitions on concrete inputs.
\<close>

definition ex_args :: "nat \<Rightarrow> axes_args" where
  "ex_args i =
     \<lparr>arg_panel = False, arg_number = Some i, arg_sharex = None, arg_sharey = None,
      arg_spanx_group = None, arg_spany_group = None, arg_panelparent = None,
      arg_panelside = None, arg_num1 = i, arg_num2 = i, arg_ncols = 3,
      arg_position = \<lparr>xmin = (1 + 3 * real i) / 10, xmax = (3 + 3 * real i) / 10,
                        ymin = 1/10, ymax = 9/10\<rparr>\<rparr>"

definition ex_kw :: subplots_kw where
  "ex_kw = \<lparr>kw_left = 1/2, kw_right = 1/2, kw_bottom = 1/2, kw_top = 1/2, kw_lspace = 1/10,
            kw_rspace = 1/10, kw_bspace = 1/10, kw_lwidth = 3/10, kw_rwidth = 3/10\<rparr>"

definition ex_gs :: gridspec where
  "ex_gs = \<lparr>gs_left = 1/12, gs_right = 11/12, gs_bottom = 1/8, gs_top = 7/8\<rparr>"

definition ex_state :: state where
  "ex_state =
     \<lparr>heap = (\<lambda>i. fresh_axes (ex_args i)),
      fig = (Figure_init (6, 4) (Some ex_gs) (Some ex_kw) True True (1/10))\<lparr>fig_axes := [0, 1, 2]\<rparr>,
      shared_x_axes = [],
      shared_y_axes = [],
      next_id = 3,
      calls = []\<rparr>"




text \<open>Arguments for \<open>panel_factory\<close> on an empty figure.\<close>

definition ex_pa :: "string option \<Rightarrow> panel_args" where
  "ex_pa w = \<lparr>pa_bbox_w = 1/2, pa_bbox_h = 3/4,
      pa_cellpos = (\<lambda>(r, c). \<lparr>xmin = real c / 4, xmax = (real c + 1) / 4,
                               ymin = real r / 4, ymax = (real r + 1) / 4\<rparr>),
      pa_whichpanels = w, pa_hspace = None, pa_wspace = None, pa_hwidth = None,
      pa_wwidth = None, pa_sharex = None, pa_sharey = None, pa_number = None\<rparr>"

definition ex_empty :: state where
  "ex_empty = ex_state\<lparr>fig := (fig ex_state)\<lparr>fig_axes := []\<rparr>, next_id := 0\<rparr>"
section \<open>Theorems\<close>

subsection \<open>Spanning labels\<close>

lemma pymin_Min: "xs \<noteq> [] \<Longrightarrow> pymin xs = Inr (Min (set xs))"
proof (cases xs)
  case Nil then show "xs \<noteq> [] \<Longrightarrow> ?thesis" by simp
next
  case (Cons x ys)
  have "(\<lambda>y m. if y < m then y else m) = (min :: real \<Rightarrow> real \<Rightarrow> real)"
    by (intro ext) (simp add: min_def)
  moreover have "Min (set (x # ys)) = fold min ys x" by (rule Min.set_eq_fold)
  ultimately show ?thesis using Cons by (simp del: set_simps)
qed

lemma pymax_Max: "xs \<noteq> [] \<Longrightarrow> pymax xs = Inr (Max (set xs))"
proof (cases xs)
  case Nil then show "xs \<noteq> [] \<Longrightarrow> ?thesis" by simp
next
  case (Cons x ys)
  have "(\<lambda>y m. if y > m then y else m) = (max :: real \<Rightarrow> real \<Rightarrow> real)"
    by (intro ext) (simp add: max_def)
  moreover have "Max (set (x # ys)) = fold max ys x" by (rule Max.set_eq_fold)
  ultimately show ?thesis using Cons by (simp del: set_simps)
qed

lemma heap_modify: "heap (modify a f st) b = (if b = a then f (heap st a) else heap st b)"
  by (simp add: modify_def)

lemma position_modify_xlabel:
  "position (heap (modify a (\<lambda>r. r\<lparr>xlabel := g r\<rparr>) st) b) = position (heap st b)"
  by (simp add: heap_modify)

lemma position_modify_ylabel:
  "position (heap (modify a (\<lambda>r. r\<lparr>ylabel := g r\<rparr>) st) b) = position (heap st b)"
  by (simp add: heap_modify)

lemma xlabel_modify_self:
  "xlabel (heap (modify a (\<lambda>r. r\<lparr>xlabel := g r\<rparr>) st) a) = g (heap st a)"
  by (simp add: heap_modify)

lemma ylabel_modify_self:
  "ylabel (heap (modify a (\<lambda>r. r\<lparr>ylabel := g r\<rparr>) st) a) = g (heap st a)"
  by (simp add: heap_modify)

lemma fold_spanx_member_xlabel_pos:
  "get_position (xlabel (heap (fold (spanx_member self grp) xs st) a))
     = get_position (xlabel (heap st a))"
  by (induction xs arbitrary: st) (simp_all add: spanx_member_def heap_modify)

lemma fold_spany_member_ylabel_pos:
  "get_position (ylabel (heap (fold (spany_member self grp) xs st) a))
     = get_position (ylabel (heap st a))"
  by (induction xs arbitrary: st) (simp_all add: spany_member_def heap_modify)

text \<open>
  C2: for a non-empty span group, \<open>_spanx_setup\<close> returns and leaves the owner's x label
  at the midpoint of the smallest \<open>xmin\<close> and the largest \<open>xmax\<close> of the members'
  positions; \<open>_spany_setup\<close> does the same for the y label with \<open>ymin\<close> and
  \<open>ymax\<close>.
\<close>

theorem span_setup_midpoint:
  assumes "grp \<noteq> []"
  shows "(\<exists>st'. spanx_setup self grp st = Inr st' \<and>
            get_position (xlabel (heap st' self)) =
              ((Min ((\<lambda>ax. xmin (position (heap st ax))) ` set grp)
                + Max ((\<lambda>ax. xmax (position (heap st ax))) ` set grp)) / 2, 0))
       \<and> (\<exists>st'. spany_setup self grp st = Inr st' \<and>
            get_position (ylabel (heap st' self)) =
              (0, (Min ((\<lambda>ax. ymin (position (heap st ax))) ` set grp)
                + Max ((\<lambda>ax. ymax (position (heap st ax))) ` set grp)) / 2))"
  using assms
  by (simp add: spanx_setup_def spany_setup_def Let_def pymin_Min pymax_Max
        position_modify_xlabel position_modify_ylabel xlabel_modify_self ylabel_modify_self
        fold_spanx_member_xlabel_pos fold_spany_member_ylabel_pos)

theorem span_setup_midpoint_witness:
  "[0, 1, 2] \<noteq> ([] :: nat list) \<and>
   (\<exists>st'. spanx_setup 1 [0, 1, 2] ex_state = Inr st' \<and>
          get_position (xlabel (heap st' 1)) = (1/2, 0)) \<and>
   (\<exists>st'. spany_setup 1 [0, 1, 2] ex_state = Inr st' \<and>
          get_position (ylabel (heap st' 1)) = (0, 1/2))"
  using span_setup_midpoint [of "[0, 1, 2]" 1 ex_state]
  by (simp add: ex_state_def fresh_axes_def ex_args_def)

lemma fold_spanx_member_visible:
  "get_visible (xlabel (heap (fold (spanx_member self grp) xs st) a))
     = (if a \<in> set xs then a = self else get_visible (xlabel (heap st a)))"
  by (induction xs arbitrary: st) (simp_all add: spanx_member_def heap_modify)

text \<open>On the x direction the members other than the owner do get their label hidden.\<close>

lemma spanx_setup_hides_others:
  assumes "spanx_setup self grp st = Inr st'" and "ax \<in> set grp" and "ax \<noteq> self"
  shows "\<not> get_visible (xlabel (heap st' ax))"
  using assms
  by (auto simp: spanx_setup_def Let_def fold_spanx_member_visible split: sum.splits)

text \<open>
  C4: on the y direction the code calls \<open>set_visible(True)\<close> on the members other than
  the owner. With the middle axes of three as the owner, the y labels of the two others
  are visible after \<open>_spany_setup\<close>.
\<close>

theorem spany_setup_shows_others:
  "(case spany_setup 1 [0, 1, 2] ex_state of
      Inl e \<Rightarrow> False
    | Inr st' \<Rightarrow> get_visible (ylabel (heap st' 0)) \<and> get_visible (ylabel (heap st' 2)))"
  by (simp add: spany_setup_def Let_def spany_member_def heap_modify ex_state_def
        fresh_axes_def ex_args_def new_text_def)

subsection \<open>What the share setup leaves alone\<close>




















subsection \<open>Sharing\<close>

text \<open>
  C5 (as the code has it): sharing an axes with itself, on x or on y, returns at once
  without an error and leaves the state as it was.
\<close>

theorem self_share_returns:
  "sharex_setup (Suc n) a (Some a) st = Inr st \<and> sharey_setup (Suc n) a (Some a) st = Inr st"
  by simp

text \<open>C5 as stated fails: sharing axes 0 with itself raises nothing.\<close>

theorem self_share_no_error:
  "sharex_setup 1 0 (Some 0) ex_state = Inr ex_state"
  by simp















subsection \<open>Drawing and the tight layout\<close>




lemma passes_append: "passes (cs @ ds) = passes cs + passes ds"
  by (simp add: passes_def)







subsection \<open>Construction and the empty panel\<close>












subsection \<open>Longitude wrap\<close>




end
